theory Spec2Isabelle
  imports Complex_Main
begin

section \<open>JavaScript values\<close>

text \<open>
  The handlers of \<^verbatim>\<open>src/app.js\<close> read \<^verbatim>\<open>req.body\<close>, test values with \<^verbatim>\<open>!\<close> and
  hand objects to \<^verbatim>\<open>res.json\<close>. The values are those of JavaScript: a number
  is a double (here a real, or one of the three non-finite doubles), an object is a list
  of own properties in insertion order.
\<close>

datatype number = NaN | PosInfinity | NegInfinity | Finite real

datatype jsval =
    JUndefined
  | JNull
  | JBool bool
  | JNum number
  | JStr string
  | JArr "jsval list"
  | JObj "(string \<times> jsval) list"

text \<open>ToBoolean: what \<^verbatim>\<open>!v\<close> negates. Objects and arrays are truthy, also when empty.\<close>

fun truthy :: "jsval \<Rightarrow> bool" where
  "truthy JUndefined = False"
| "truthy JNull = False"
| "truthy (JBool b) = b"
| "truthy (JNum NaN) = False"
| "truthy (JNum (Finite r)) = (r \<noteq> 0)"
| "truthy (JNum PosInfinity) = True"
| "truthy (JNum NegInfinity) = True"
| "truthy (JStr s) = (s \<noteq> [])"
| "truthy (JArr vs) = True"
| "truthy (JObj kvs) = True"

text \<open>
  An exception is the value thrown; the error handler reads only its \<^verbatim>\<open>stack\<close>.
\<close>

datatype js_error = Error (stack: string)

text \<open>
  Reading the property \<open>k\<close> of \<open>v\<close> in a destructuring pattern, for the two keys the
  code reads (\<^verbatim>\<open>name\<close>, \<^verbatim>\<open>email\<close>): \<^verbatim>\<open>undefined\<close> and \<^verbatim>\<open>null\<close> throw a TypeError, an
  object gives its own property or \<^verbatim>\<open>undefined\<close>, and arrays and primitives have
  neither key, own or inherited.
\<close>

definition type_error :: js_error where
  "type_error = Error ''TypeError: Cannot destructure property of req.body''"

fun get_prop :: "jsval \<Rightarrow> string \<Rightarrow> js_error + jsval" where
  "get_prop JUndefined k = Inl type_error"
| "get_prop JNull k = Inl type_error"
| "get_prop (JObj kvs) k = Inr (case map_of kvs k of None \<Rightarrow> JUndefined | Some v \<Rightarrow> v)"
| "get_prop v k = Inr JUndefined"

section \<open>Requests, responses and the runtime\<close>

datatype payload = Json jsval | Bytes string

record response =
  status :: nat
  body :: payload

text \<open>
  What \<^verbatim>\<open>express.static('public')\<close> finds for a path: no file (it calls \<^verbatim>\<open>next()\<close>),
  a file it answers with, or a fault it forwards.
\<close>

datatype static_result = Miss | Served response | Failed js_error

text \<open>
  The readings the code takes from the Node process while it handles one request:
  the wall clock in epoch milliseconds (\<^verbatim>\<open>Date.now()\<close>, \<^verbatim>\<open>new Date()\<close>), \<^verbatim>\<open>process.uptime()\<close>
  in seconds, and the content of the directory \<^verbatim>\<open>public\<close>.
\<close>

record runtime =
  date_now :: int
  uptime :: real
  public :: "string \<Rightarrow> static_result"

text \<open>
  A request as the middleware stack sees it: the method as Node reports it, the path
  without the query string, what \<^verbatim>\<open>express.json()\<close> makes of the body (a fault, or the
  value \<^verbatim>\<open>req.body\<close> holds once it has run: the parsed object or array, and for a
  request with no JSON body \<^verbatim>\<open>{}\<close> or \<^verbatim>\<open>undefined\<close>, by the version of Express), and
  \<^verbatim>\<open>req.body\<close> itself, which the parser sets.
\<close>

record request =
  req_method :: string
  req_path :: string
  json :: "js_error + jsval"
  req_body :: jsval

datatype action = Next request | Fail js_error | Send response

record outcome =
  response :: response
  console_error :: "string list"

section \<open>Date.prototype.toISOString\<close>

text \<open>
  The ECMAScript conversion of a time value (epoch milliseconds, UTC, proleptic
  Gregorian calendar) to \<^verbatim>\<open>YYYY-MM-DDTHH:mm:ss.sssZ\<close>, with the expanded six-digit signed
  year outside 0..9999.
\<close>

fun digits :: "nat \<Rightarrow> nat \<Rightarrow> string" where
  "digits 0 n = []"
| "digits (Suc w) n = digits w (n div 10) @ [''0123456789'' ! (n mod 10)]"

definition civil_from_days :: "int \<Rightarrow> int \<times> int \<times> int" where
  "civil_from_days z =
     (let z' = z + 719468;
          era = z' div 146097;
          doe = z' mod 146097;
          yoe = (doe - doe div 1460 + doe div 36524 - doe div 146096) div 365;
          doy = doe - (365 * yoe + yoe div 4 - yoe div 100);
          mp = (5 * doy + 2) div 153;
          d = doy - (153 * mp + 2) div 5 + 1;
          m = (if mp < 10 then mp + 3 else mp - 9);
          y = yoe + era * 400
      in (if m \<le> 2 then y + 1 else y, m, d))"

definition year_text :: "int \<Rightarrow> string" where
  "year_text y =
     (if 0 \<le> y \<and> y \<le> 9999 then digits 4 (nat y)
      else (if y < 0 then ''-'' else ''+'') @ digits 6 (nat \<bar>y\<bar>))"

definition toISOString :: "int \<Rightarrow> string" where
  "toISOString t =
     (let ms = t mod 86400000
      in case civil_from_days (t div 86400000) of (y, m, d) \<Rightarrow>
           year_text y @ ''-'' @ digits 2 (nat m) @ ''-'' @ digits 2 (nat d) @ ''T''
           @ digits 2 (nat (ms div 3600000)) @ '':''
           @ digits 2 (nat (ms div 60000 mod 60)) @ '':''
           @ digits 2 (nat (ms div 1000 mod 60)) @ ''.''
           @ digits 3 (nat (ms mod 1000)) @ ''Z'')"

section \<open>The Express router\<close>

text \<open>
  \<^verbatim>\<open>String.prototype.toLowerCase\<close> on the ASCII letters, which is all the router's
  case-insensitive comparison of a literal path and of a method name needs.
\<close>

definition to_lower :: "char \<Rightarrow> char" where
  "to_lower c =
     (case map_of (zip ''ABCDEFGHIJKLMNOPQRSTUVWXYZ'' ''abcdefghijklmnopqrstuvwxyz'') c of
        None \<Rightarrow> c
      | Some l \<Rightarrow> l)"

definition toLowerCase :: "string \<Rightarrow> string" where
  "toLowerCase s = map to_lower s"

text \<open>
  A route registered with \<^verbatim>\<open>app.get\<close> or \<^verbatim>\<open>app.post\<close> under a literal path, with the
  router's default options (not case sensitive, not strict): the path matches in any
  letter case, with or without one trailing slash; a HEAD request is handled by a
  route registered for GET.
\<close>

definition path_match :: "string \<Rightarrow> string \<Rightarrow> bool" where
  "path_match pat p =
     (toLowerCase p = toLowerCase pat \<or> toLowerCase p = toLowerCase pat @ ''/'')"

definition handles_method :: "string \<Rightarrow> string \<Rightarrow> bool" where
  "handles_method registered m =
     (let name = toLowerCase m
      in (if name = ''head'' \<and> registered \<noteq> ''head'' then ''get'' else name) = registered)"

text \<open>
  The entries of the application's stack, in the three forms the file registers:
  \<^verbatim>\<open>app.use(fn)\<close> with a middleware of three parameters, \<^verbatim>\<open>app.use(fn)\<close> with an error
  handler of four, and \<^verbatim>\<open>app.get\<close>/\<^verbatim>\<open>app.post\<close> with a method, a path and a handler.
\<close>

datatype layer =
    Use "runtime \<Rightarrow> request \<Rightarrow> action"
  | UseError "js_error \<Rightarrow> request \<Rightarrow> outcome"
  | Route string string "runtime \<Rightarrow> request \<Rightarrow> action"

text \<open>
  The router walks the stack in registration order. Without a pending error it skips
  error handlers and routes that do not match; with one (from \<^verbatim>\<open>next(err)\<close> or from an
  exception a layer threw) it skips everything but error handlers. \<open>None\<close> is a
  request that falls off the end of the stack.
\<close>

fun dispatch :: "layer list \<Rightarrow> runtime \<Rightarrow> request \<Rightarrow> js_error option \<Rightarrow> outcome option" where
  "dispatch [] rt req err = None"
| "dispatch (Use f # ls) rt req None =
     (case f rt req of
        Next req' \<Rightarrow> dispatch ls rt req' None
      | Fail e \<Rightarrow> dispatch ls rt req (Some e)
      | Send r \<Rightarrow> Some \<lparr>response = r, console_error = []\<rparr>)"
| "dispatch (Use f # ls) rt req (Some e) = dispatch ls rt req (Some e)"
| "dispatch (UseError g # ls) rt req None = dispatch ls rt req None"
| "dispatch (UseError g # ls) rt req (Some e) = Some (g e req)"
| "dispatch (Route m p h # ls) rt req None =
     (if handles_method m (req_method req) \<and> path_match p (req_path req)
      then (case h rt req of
              Next req' \<Rightarrow> dispatch ls rt req' None
            | Fail e \<Rightarrow> dispatch ls rt req (Some e)
            | Send r \<Rightarrow> Some \<lparr>response = r, console_error = []\<rparr>)
      else dispatch ls rt req None)"
| "dispatch (Route m p h # ls) rt req (Some e) = dispatch ls rt req (Some e)"

section \<open>src/app.js\<close>

text \<open>
  \<^verbatim>\<open>res.status(code).json(v)\<close>; \<^verbatim>\<open>res.json(v)\<close> alone answers with status 200. The body of
  the response is the value handed to \<^verbatim>\<open>res.json\<close>; writing it out as text is the
  runtime's \<^verbatim>\<open>JSON.stringify\<close>.
\<close>

definition res_json :: "nat \<Rightarrow> jsval \<Rightarrow> action" where
  "res_json code v = Send \<lparr>status = code, body = Json v\<rparr>"

text \<open>
  \<^verbatim>\<open>express.json()\<close>: a fault goes to \<^verbatim>\<open>next(err)\<close>, otherwise \<^verbatim>\<open>req.body\<close> is assigned.
\<close>

definition express_json :: "runtime \<Rightarrow> request \<Rightarrow> action" where
  "express_json rt req =
     (case json req of Inl e \<Rightarrow> Fail e | Inr v \<Rightarrow> Next (req\<lparr>req_body := v\<rparr>))"

text \<open>
  \<^verbatim>\<open>express.static('public')\<close>: only GET and HEAD are looked up; everything else, and
  a path with no file, goes on to the next layer.
\<close>

definition express_static :: "runtime \<Rightarrow> request \<Rightarrow> action" where
  "express_static rt req =
     (if req_method req \<noteq> ''GET'' \<and> req_method req \<noteq> ''HEAD'' then Next req
      else case public rt (req_path req) of
             Miss \<Rightarrow> Next req
           | Served r \<Rightarrow> Send r
           | Failed e \<Rightarrow> Fail e)"

definition health :: "runtime \<Rightarrow> request \<Rightarrow> action" where
  "health rt req =
     res_json 200 (JObj [(''status'', JStr ''healthy''),
                         (''timestamp'', JStr (toISOString (date_now rt))),
                         (''uptime'', JNum (Finite (uptime rt)))])"

definition sample_users :: jsval where
  "sample_users =
     JArr [JObj [(''id'', JNum (Finite 1)), (''name'', JStr ''John Doe''),
                 (''email'', JStr ''john@example.com'')],
           JObj [(''id'', JNum (Finite 2)), (''name'', JStr ''Jane Smith''),
                 (''email'', JStr ''jane@example.com'')]]"

definition get_users :: "runtime \<Rightarrow> request \<Rightarrow> action" where
  "get_users rt req = res_json 200 sample_users"

definition required_error :: jsval where
  "required_error = JObj [(''error'', JStr ''Name and email are required'')]"

definition newUser :: "runtime \<Rightarrow> jsval \<Rightarrow> jsval \<Rightarrow> jsval" where
  "newUser rt name email =
     JObj [(''id'', JNum (Finite (of_int (date_now rt)))), (''name'', name), (''email'', email)]"

definition post_users :: "runtime \<Rightarrow> request \<Rightarrow> action" where
  "post_users rt req =
     (case get_prop (req_body req) ''name'' of
        Inl e \<Rightarrow> Fail e
      | Inr name \<Rightarrow>
          (case get_prop (req_body req) ''email'' of
             Inl e \<Rightarrow> Fail e
           | Inr email \<Rightarrow>
               if \<not> truthy name \<or> \<not> truthy email then res_json 400 required_error
               else res_json 201 (newUser rt name email)))"

definition went_wrong :: response where
  "went_wrong = \<lparr>status = 500, body = Json (JObj [(''error'', JStr ''Something went wrong!'')])\<rparr>"

definition error_handler :: "js_error \<Rightarrow> request \<Rightarrow> outcome" where
  "error_handler err req = \<lparr>response = went_wrong, console_error = [stack err]\<rparr>"

definition route_not_found :: jsval where
  "route_not_found = JObj [(''error'', JStr ''Route not found'')]"

definition not_found :: "runtime \<Rightarrow> request \<Rightarrow> action" where
  "not_found rt req = res_json 404 route_not_found"

text \<open>The stack, in the order the file registers it.\<close>

definition app :: "layer list" where
  "app = [Use express_json,
          Use express_static,
          Route ''get'' ''/health'' health,
          Route ''get'' ''/api/users'' get_users,
          Route ''post'' ''/api/users'' post_users,
          UseError error_handler,
          Use not_found]"

definition handle :: "runtime \<Rightarrow> request \<Rightarrow> outcome option" where
  "handle rt req = dispatch app rt req None"

section \<open>Loading the module and serving requests\<close>

text \<open>
  \<^verbatim>\<open>process.env.PORT || 3000\<close>: an environment variable is a string when set, and the
  empty string is falsy.
\<close>

definition port :: "string option \<Rightarrow> jsval" where
  "port env_PORT =
     (let v = (case env_PORT of None \<Rightarrow> JUndefined | Some s \<Rightarrow> JStr s)
      in if truthy v then v else JNum (Finite 3000))"

text \<open>
  The process after the file is evaluated: what \<^verbatim>\<open>module.exports\<close> holds and the port
  \<^verbatim>\<open>app.listen\<close> was called with, if it was. No handler assigns to a variable outside
  its own call, so serving a request hands the process back as it was; what a request
  writes with \<^verbatim>\<open>console.error\<close> is output, returned with the response.
\<close>

record process =
  exports :: "layer list"
  listening :: "jsval option"

definition load :: "string option \<Rightarrow> bool \<Rightarrow> process" where
  "load env_PORT is_main =
     \<lparr>exports = app,
      listening = (if is_main then Some (port env_PORT) else None)\<rparr>"

definition serve :: "process \<Rightarrow> runtime \<times> request \<Rightarrow> process \<times> outcome option" where
  "serve p x = (p, dispatch (exports p) (fst x) (snd x) None)"

fun serve_all :: "process \<Rightarrow> (runtime \<times> request) list \<Rightarrow> process \<times> outcome option list" where
  "serve_all p [] = (p, [])"
| "serve_all p (x # xs) =
     (case serve p x of (p', r) \<Rightarrow>
        (case serve_all p' xs of (p'', rs) \<Rightarrow> (p'', r # rs)))"

text \<open>The repository ships no directory \<^verbatim>\<open>public\<close>: every lookup misses.\<close>

definition no_public :: "string \<Rightarrow> static_result" where
  "no_public p = Miss"

text \<open>
  A request as it arrives, before any layer has run: \<^verbatim>\<open>req.body\<close> is not set yet.
\<close>

definition incoming :: "string \<Rightarrow> string \<Rightarrow> js_error + jsval \<Rightarrow> request" where
  "incoming m p j = \<lparr>req_method = m, req_path = p, json = j, req_body = JUndefined\<rparr>"

text \<open>
  The readings of a process 123.456 seconds old at 2025-10-30T03:45:00.000Z, the sample
  of the README.
\<close>

definition sample_runtime :: runtime where
  "sample_runtime = \<lparr>date_now = 1761795900000, uptime = 123.456, public = no_public\<rparr>"

section \<open>The stack with the module scope threaded\<close>

text \<open>
  The handlers are closures over the variables of the module, and what a handler
  assigned there would outlive its request. To say what a request leaves behind, the
  layers of \<^verbatim>\<open>src/app.js\<close> are written once more as the state transformers they are:
  each is handed the scope, a store from the names of the module's variables to their
  values, and hands it back with its action. None of the seven bodies holds an
  assignment to a variable of the module, so each returns the scope it was given; a
  body that held one would return the store updated.
\<close>

type_synonym scope = "string \<Rightarrow> jsval option"

text \<open>The scope once the file is evaluated: \<^verbatim>\<open>port\<close> is its one variable holding a value.\<close>

definition module_scope :: "string option \<Rightarrow> scope" where
  "module_scope env_PORT = [''port'' \<mapsto> port env_PORT]"

definition express_json_st :: "scope \<Rightarrow> runtime \<Rightarrow> request \<Rightarrow> scope \<times> action" where
  "express_json_st sc rt req =
     (case json req of Inl e \<Rightarrow> (sc, Fail e) | Inr v \<Rightarrow> (sc, Next (req\<lparr>req_body := v\<rparr>)))"

definition express_static_st :: "scope \<Rightarrow> runtime \<Rightarrow> request \<Rightarrow> scope \<times> action" where
  "express_static_st sc rt req =
     (if req_method req \<noteq> ''GET'' \<and> req_method req \<noteq> ''HEAD'' then (sc, Next req)
      else case public rt (req_path req) of
             Miss \<Rightarrow> (sc, Next req)
           | Served r \<Rightarrow> (sc, Send r)
           | Failed e \<Rightarrow> (sc, Fail e))"

definition health_st :: "scope \<Rightarrow> runtime \<Rightarrow> request \<Rightarrow> scope \<times> action" where
  "health_st sc rt req =
     (sc, res_json 200 (JObj [(''status'', JStr ''healthy''),
                              (''timestamp'', JStr (toISOString (date_now rt))),
                              (''uptime'', JNum (Finite (uptime rt)))]))"

definition get_users_st :: "scope \<Rightarrow> runtime \<Rightarrow> request \<Rightarrow> scope \<times> action" where
  "get_users_st sc rt req = (sc, res_json 200 sample_users)"

definition post_users_st :: "scope \<Rightarrow> runtime \<Rightarrow> request \<Rightarrow> scope \<times> action" where
  "post_users_st sc rt req =
     (case get_prop (req_body req) ''name'' of
        Inl e \<Rightarrow> (sc, Fail e)
      | Inr name \<Rightarrow>
          (case get_prop (req_body req) ''email'' of
             Inl e \<Rightarrow> (sc, Fail e)
           | Inr email \<Rightarrow>
               if \<not> truthy name \<or> \<not> truthy email then (sc, res_json 400 required_error)
               else (sc, res_json 201 (newUser rt name email))))"

definition error_handler_st :: "scope \<Rightarrow> js_error \<Rightarrow> request \<Rightarrow> scope \<times> outcome" where
  "error_handler_st sc err req = (sc, \<lparr>response = went_wrong, console_error = [stack err]\<rparr>)"

definition not_found_st :: "scope \<Rightarrow> runtime \<Rightarrow> request \<Rightarrow> scope \<times> action" where
  "not_found_st sc rt req = (sc, res_json 404 route_not_found)"

datatype st_layer =
    UseSt "scope \<Rightarrow> runtime \<Rightarrow> request \<Rightarrow> scope \<times> action"
  | UseErrorSt "scope \<Rightarrow> js_error \<Rightarrow> request \<Rightarrow> scope \<times> outcome"
  | RouteSt string string "scope \<Rightarrow> runtime \<Rightarrow> request \<Rightarrow> scope \<times> action"

definition app_st :: "st_layer list" where
  "app_st = [UseSt express_json_st,
             UseSt express_static_st,
             RouteSt ''get'' ''/health'' health_st,
             RouteSt ''get'' ''/api/users'' get_users_st,
             RouteSt ''post'' ''/api/users'' post_users_st,
             UseErrorSt error_handler_st,
             UseSt not_found_st]"

text \<open>
  The router as before, now passing on the scope each layer hands back, so that a
  later layer, and the next request, see what an earlier one assigned.
\<close>

fun dispatch_st ::
  "st_layer list \<Rightarrow> scope \<Rightarrow> runtime \<Rightarrow> request \<Rightarrow> js_error option \<Rightarrow> scope \<times> outcome option" where
  "dispatch_st [] sc rt req err = (sc, None)"
| "dispatch_st (UseSt f # ls) sc rt req None =
     (case f sc rt req of
        (sc', Next req') \<Rightarrow> dispatch_st ls sc' rt req' None
      | (sc', Fail e) \<Rightarrow> dispatch_st ls sc' rt req (Some e)
      | (sc', Send r) \<Rightarrow> (sc', Some \<lparr>response = r, console_error = []\<rparr>))"
| "dispatch_st (UseSt f # ls) sc rt req (Some e) = dispatch_st ls sc rt req (Some e)"
| "dispatch_st (UseErrorSt g # ls) sc rt req None = dispatch_st ls sc rt req None"
| "dispatch_st (UseErrorSt g # ls) sc rt req (Some e) =
     (case g sc e req of (sc', out) \<Rightarrow> (sc', Some out))"
| "dispatch_st (RouteSt m p h # ls) sc rt req None =
     (if handles_method m (req_method req) \<and> path_match p (req_path req)
      then (case h sc rt req of
              (sc', Next req') \<Rightarrow> dispatch_st ls sc' rt req' None
            | (sc', Fail e) \<Rightarrow> dispatch_st ls sc' rt req (Some e)
            | (sc', Send r) \<Rightarrow> (sc', Some \<lparr>response = r, console_error = []\<rparr>))
      else dispatch_st ls sc rt req None)"
| "dispatch_st (RouteSt m p h # ls) sc rt req (Some e) = dispatch_st ls sc rt req (Some e)"

text \<open>
  Requests served one after the other: each starts from the scope the one before it
  left.
\<close>

fun serve_all_st :: "scope \<Rightarrow> (runtime \<times> request) list \<Rightarrow> scope \<times> outcome option list" where
  "serve_all_st sc [] = (sc, [])"
| "serve_all_st sc (x # xs) =
     (case dispatch_st app_st sc (fst x) (snd x) None of (sc', r) \<Rightarrow>
        (case serve_all_st sc' xs of (sc'', rs) \<Rightarrow> (sc'', r # rs)))"

section \<open>Facts about the router\<close>

lemma toLowerCase_GET: "toLowerCase ''GET'' = ''get''"
  by (simp add: toLowerCase_def to_lower_def)

lemma toLowerCase_HEAD: "toLowerCase ''HEAD'' = ''head''"
  by (simp add: toLowerCase_def to_lower_def)

lemma toLowerCase_POST: "toLowerCase ''POST'' = ''post''"
  by (simp add: toLowerCase_def to_lower_def)

lemma toLowerCase_health: "toLowerCase ''/health'' = ''/health''"
  by (simp add: toLowerCase_def to_lower_def)

lemma toLowerCase_users: "toLowerCase ''/api/users'' = ''/api/users''"
  by (simp add: toLowerCase_def to_lower_def)

lemmas lower_literals =
  toLowerCase_GET toLowerCase_HEAD toLowerCase_POST toLowerCase_health toLowerCase_users

lemma users_not_health: "path_match ''/api/users'' p \<Longrightarrow> \<not> path_match ''/health'' p"
  by (auto simp add: path_match_def lower_literals)

lemma path_match_refl: "path_match p p"
  by (simp add: path_match_def)

text \<open>Once the body is parsed, the request goes on with \<^verbatim>\<open>req.body\<close> assigned.\<close>

lemma handle_parsed:
  "json req = Inr b \<Longrightarrow>
   handle rt req = dispatch (drop 1 app) rt (req\<lparr>req_body := b\<rparr>) None"
  by (simp add: handle_def app_def express_json_def)

lemma handle_fault:
  "json req = Inl e \<Longrightarrow> handle rt req = Some (error_handler e req)"
  by (simp add: handle_def app_def express_json_def)

text \<open>What \<^verbatim>\<open>req.body\<close> held on arrival does not matter: the parser overwrites it.\<close>

lemma handle_initial_body: "handle rt (req\<lparr>req_body := v\<rparr>) = handle rt req"
proof (cases "json req")
  case (Inl e)
  then show ?thesis by (simp add: handle_fault error_handler_def)
next
  case (Inr b)
  then show ?thesis by (simp add: handle_parsed)
qed

lemma dispatch_pending:
  assumes "k \<le> 5"
  shows "dispatch (drop k app) rt req (Some e) = Some (error_handler e req)"
proof -
  from assms have "k = 0 \<or> k = 1 \<or> k = 2 \<or> k = 3 \<or> k = 4 \<or> k = 5" by arith
  then show ?thesis by (auto simp add: app_def)
qed

text \<open>A POST is not looked up in \<^verbatim>\<open>public\<close> and skips both GET routes.\<close>

lemma post_users_reached:
  assumes "req_method req = ''POST''" and "path_match ''/api/users'' (req_path req)"
    and "json req = Inr b"
  shows "handle rt req =
         (case post_users rt (req\<lparr>req_body := b\<rparr>) of
            Next req' \<Rightarrow> Some \<lparr>response = \<lparr>status = 404, body = Json route_not_found\<rparr>, console_error = []\<rparr>
          | Fail e \<Rightarrow> Some (error_handler e (req\<lparr>req_body := b\<rparr>))
          | Send r \<Rightarrow> Some \<lparr>response = r, console_error = []\<rparr>)"
  using assms
  by (simp add: handle_def app_def express_json_def express_static_def handles_method_def
      lower_literals not_found_def res_json_def split: action.splits)

lemma post_users_answer:
  assumes "req_method req = ''POST''" and "path_match ''/api/users'' (req_path req)"
    and "json req = Inr b"
    and "get_prop b ''name'' = Inr name" and "get_prop b ''email'' = Inr email"
  shows "handle rt req =
         Some \<lparr>response =
                 (if truthy name \<and> truthy email
                  then \<lparr>status = 201, body = Json (newUser rt name email)\<rparr>
                  else \<lparr>status = 400, body = Json required_error\<rparr>),
               console_error = []\<rparr>"
  using assms(4,5)
  by (simp add: post_users_reached[OF assms(1-3)] post_users_def res_json_def)

lemma get_users_answer:
  assumes "req_method req = ''GET''" and "path_match ''/api/users'' (req_path req)"
    and "json req = Inr b" and "public rt (req_path req) = Miss"
  shows "handle rt req =
         Some \<lparr>response = \<lparr>status = 200, body = Json sample_users\<rparr>, console_error = []\<rparr>"
  using assms users_not_health[of "req_path req"]
  by (simp add: handle_def app_def express_json_def express_static_def handles_method_def
      lower_literals get_users_def res_json_def)

lemma health_answer:
  assumes "req_method req = ''GET''" and "path_match ''/health'' (req_path req)"
    and "json req = Inr b" and "public rt (req_path req) = Miss"
  shows "handle rt req =
         Some \<lparr>response =
                 \<lparr>status = 200,
                  body = Json (JObj [(''status'', JStr ''healthy''),
                                     (''timestamp'', JStr (toISOString (date_now rt))),
                                     (''uptime'', JNum (Finite (uptime rt)))])\<rparr>,
               console_error = []\<rparr>"
  using assms
  by (simp add: handle_def app_def express_json_def express_static_def handles_method_def
      lower_literals health_def res_json_def)

text \<open>Serving hands the process back unchanged, whatever the requests.\<close>

lemma serve_all_Cons:
  "serve_all p (x # xs) =
   (fst (serve_all (fst (serve p x)) xs),
    snd (serve p x) # snd (serve_all (fst (serve p x)) xs))"
  by (simp split: prod.splits)

lemma serve_all_process: "fst (serve_all p xs) = p"
proof (induction xs arbitrary: p)
  case Nil
  show ?case by simp
next
  case (Cons x xs)
  have "fst (serve_all p (x # xs)) = fst (serve_all (fst (serve p x)) xs)"
    by (simp only: serve_all_Cons fst_conv)
  also have "\<dots> = fst (serve p x)" by (rule Cons.IH)
  also have "\<dots> = p" by (simp add: serve_def)
  finally show ?case .
qed

lemma serve_all_outcomes:
  "snd (serve_all p xs) = map (\<lambda>x. dispatch (exports p) (fst x) (snd x) None) xs"
proof (induction xs arbitrary: p)
  case Nil
  show ?case by simp
next
  case (Cons x xs)
  have "snd (serve_all p (x # xs)) = snd (serve p x) # snd (serve_all (fst (serve p x)) xs)"
    by (simp only: serve_all_Cons snd_conv)
  also have "\<dots> = dispatch (exports p) (fst x) (snd x) None
                   # map (\<lambda>y. dispatch (exports p) (fst y) (snd y) None) xs"
    by (simp add: serve_def Cons.IH)
  finally show ?case by simp
qed

lemma iso_sample: "toISOString 1761795900000 = ''2025-10-30T03:45:00.000Z''"
  by code_simp

section \<open>POST /api/users\<close>

text \<open>
  C1. A POST to /api/users whose parsed body is an object with truthy \<open>name\<close> and
  \<open>email\<close> is answered with status 201 and the object of exactly \<open>id\<close>, \<open>name\<close>,
  \<open>email\<close>: the two values as they came, and for \<open>id\<close> the clock reading in epoch
  milliseconds, an integer that is positive when the clock is past the epoch.
\<close>

theorem post_users_created:
  assumes "req_method req = ''POST''" and "path_match ''/api/users'' (req_path req)"
    and "json req = Inr (JObj kvs)"
    and "map_of kvs ''name'' = Some name" and "truthy name"
    and "map_of kvs ''email'' = Some email" and "truthy email"
    and "0 < date_now rt"
  shows "handle rt req =
         Some \<lparr>response =
                 \<lparr>status = 201,
                  body = Json (JObj [(''id'', JNum (Finite (of_int (date_now rt)))),
                                     (''name'', name), (''email'', email)])\<rparr>,
               console_error = []\<rparr>
         \<and> real_of_int (date_now rt) \<in> \<int> \<and> 0 < real_of_int (date_now rt)"
proof -
  have "get_prop (JObj kvs) ''name'' = Inr name" "get_prop (JObj kvs) ''email'' = Inr email"
    using assms(4,6) by simp_all
  from post_users_answer[OF assms(1-3) this] assms(5,7,8)
  show ?thesis by (simp add: newUser_def)
qed

theorem post_users_created_witness:
  "handle sample_runtime
     (incoming ''POST'' ''/api/users''
        (Inr (JObj [(''name'', JStr ''Alice''), (''email'', JStr ''a@x.com'')]))) =
   Some \<lparr>response =
           \<lparr>status = 201,
            body = Json (JObj [(''id'', JNum (Finite 1761795900000)),
                               (''name'', JStr ''Alice''), (''email'', JStr ''a@x.com'')])\<rparr>,
         console_error = []\<rparr>"
  using post_users_created[of "incoming ''POST'' ''/api/users''
        (Inr (JObj [(''name'', JStr ''Alice''), (''email'', JStr ''a@x.com'')]))"
      "[(''name'', JStr ''Alice''), (''email'', JStr ''a@x.com'')]"
      "JStr ''Alice''" "JStr ''a@x.com''" sample_runtime]
  by (simp add: incoming_def sample_runtime_def path_match_refl)

text \<open>
  C2 as stated fails: the handler destructures \<^verbatim>\<open>req.body\<close> before it tests the two
  fields, and the JSON parser runs before the handler. A POST to /api/users that
  leaves \<^verbatim>\<open>req.body\<close> undefined, and one whose body the parser rejects, are both
  missing \<open>name\<close> and \<open>email\<close>, and both are answered with status 500, not 400.
\<close>

theorem post_users_validation_counterexample:
  "handle sample_runtime (incoming ''POST'' ''/api/users'' (Inr JUndefined)) =
     Some \<lparr>response =
             \<lparr>status = 500, body = Json (JObj [(''error'', JStr ''Something went wrong!'')])\<rparr>,
           console_error = [''TypeError: Cannot destructure property of req.body'']\<rparr>
   \<and> handle sample_runtime
       (incoming ''POST'' ''/api/users''
          (Inl (Error ''SyntaxError: Unexpected end of JSON input''))) =
     Some \<lparr>response =
             \<lparr>status = 500, body = Json (JObj [(''error'', JStr ''Something went wrong!'')])\<rparr>,
           console_error = [''SyntaxError: Unexpected end of JSON input'']\<rparr>"
  by (simp add: handle_def app_def express_json_def express_static_def incoming_def
      handles_method_def lower_literals path_match_refl post_users_def type_error_def
      error_handler_def went_wrong_def)

text \<open>
  C2, amended. A POST to /api/users whose body the JSON parser accepts, leaving
  \<^verbatim>\<open>req.body\<close> a value other than \<^verbatim>\<open>undefined\<close> and \<^verbatim>\<open>null\<close>, and whose \<open>name\<close> or
  \<open>email\<close> is missing or falsy, is answered with status 400 and exactly
  \<open>{error: "Name and email are required"}\<close>; truthiness is the only test, so any
  other pair of values is accepted with status 201.
\<close>

theorem post_users_validation:
  assumes "req_method req = ''POST''" and "path_match ''/api/users'' (req_path req)"
    and "json req = Inr b"
    and "get_prop b ''name'' = Inr name" and "get_prop b ''email'' = Inr email"
  shows "(\<not> truthy name \<or> \<not> truthy email \<longrightarrow>
            handle rt req =
            Some \<lparr>response =
                    \<lparr>status = 400,
                     body = Json (JObj [(''error'', JStr ''Name and email are required'')])\<rparr>,
                  console_error = []\<rparr>)
         \<and> (truthy name \<and> truthy email \<longrightarrow>
            (\<exists>v. handle rt req =
                  Some \<lparr>response = \<lparr>status = 201, body = Json v\<rparr>, console_error = []\<rparr>))"
  using post_users_answer[OF assms, of rt]
  by (auto simp add: required_error_def)

theorem post_users_validation_witness:
  "handle sample_runtime (incoming ''POST'' ''/api/users'' (Inr (JObj []))) =
     Some \<lparr>response =
             \<lparr>status = 400,
              body = Json (JObj [(''error'', JStr ''Name and email are required'')])\<rparr>,
           console_error = []\<rparr>
   \<and> handle sample_runtime
       (incoming ''POST'' ''/api/users'' (Inr (JObj [(''name'', JStr ''Alice'')]))) =
     Some \<lparr>response =
             \<lparr>status = 400,
              body = Json (JObj [(''error'', JStr ''Name and email are required'')])\<rparr>,
           console_error = []\<rparr>
   \<and> handle sample_runtime
       (incoming ''POST'' ''/api/users''
          (Inr (JObj [(''name'', JNum (Finite 0)), (''email'', JStr [])]))) =
     Some \<lparr>response =
             \<lparr>status = 400,
              body = Json (JObj [(''error'', JStr ''Name and email are required'')])\<rparr>,
           console_error = []\<rparr>
   \<and> handle sample_runtime
       (incoming ''POST'' ''/api/users''
          (Inr (JObj [(''name'', JNull), (''email'', JBool False)]))) =
     Some \<lparr>response =
             \<lparr>status = 400,
              body = Json (JObj [(''error'', JStr ''Name and email are required'')])\<rparr>,
           console_error = []\<rparr>
   \<and> (\<exists>v. handle sample_runtime
            (incoming ''POST'' ''/api/users''
               (Inr (JObj [(''name'', JNum (Finite 7)), (''email'', JStr ''not an address'')]))) =
          Some \<lparr>response = \<lparr>status = 201, body = Json v\<rparr>, console_error = []\<rparr>)"
  using
    post_users_validation[of "incoming ''POST'' ''/api/users'' (Inr (JObj []))"
      "JObj []" JUndefined JUndefined sample_runtime]
    post_users_validation[of "incoming ''POST'' ''/api/users'' (Inr (JObj [(''name'', JStr ''Alice'')]))"
      "JObj [(''name'', JStr ''Alice'')]" "JStr ''Alice''" JUndefined sample_runtime]
    post_users_validation[of "incoming ''POST'' ''/api/users''
          (Inr (JObj [(''name'', JNum (Finite 0)), (''email'', JStr [])]))"
      "JObj [(''name'', JNum (Finite 0)), (''email'', JStr [])]"
      "JNum (Finite 0)" "JStr []" sample_runtime]
    post_users_validation[of "incoming ''POST'' ''/api/users''
          (Inr (JObj [(''name'', JNull), (''email'', JBool False)]))"
      "JObj [(''name'', JNull), (''email'', JBool False)]"
      "JNull" "JBool False" sample_runtime]
    post_users_validation[of "incoming ''POST'' ''/api/users''
          (Inr (JObj [(''name'', JNum (Finite 7)), (''email'', JStr ''not an address'')]))"
      "JObj [(''name'', JNum (Finite 7)), (''email'', JStr ''not an address'')]"
      "JNum (Finite 7)" "JStr ''not an address''" sample_runtime]
  by (simp add: incoming_def path_match_refl)

section \<open>GET /api/users\<close>

text \<open>
  C3 as stated fails: the JSON parser and the static directory stand ahead of the
  route. A GET to /api/users whose body the parser rejects is answered with status 500,
  and one whose path names a file under \<^verbatim>\<open>public\<close> is answered with that file.
\<close>

theorem get_users_counterexample:
  "handle sample_runtime
     (incoming ''GET'' ''/api/users'' (Inl (Error ''SyntaxError: Unexpected end of JSON input''))) =
     Some \<lparr>response =
             \<lparr>status = 500, body = Json (JObj [(''error'', JStr ''Something went wrong!'')])\<rparr>,
           console_error = [''SyntaxError: Unexpected end of JSON input'']\<rparr>
   \<and> handle
       (sample_runtime\<lparr>public :=
          no_public(''/api/users'' := Served \<lparr>status = 200, body = Bytes ''a file''\<rparr>)\<rparr>)
       (incoming ''GET'' ''/api/users'' (Inr (JObj []))) =
     Some \<lparr>response = \<lparr>status = 200, body = Bytes ''a file''\<rparr>, console_error = []\<rparr>"
  by (simp add: handle_def app_def express_json_def express_static_def incoming_def
      error_handler_def went_wrong_def sample_runtime_def)

text \<open>
  C3, amended. A GET to /api/users that the JSON parser lets through and that the
  static directory does not answer gets status 200 and the array of the two fixed
  users, John Doe then Jane Smith; so does the same request served after any
  sequence of earlier requests, whatever they were.
\<close>

theorem get_users_fixed:
  assumes "req_method req = ''GET''" and "path_match ''/api/users'' (req_path req)"
    and "json req = Inr b" and "public rt (req_path req) = Miss"
  shows "handle rt req =
         Some \<lparr>response =
                 \<lparr>status = 200,
                  body = Json (JArr [JObj [(''id'', JNum (Finite 1)), (''name'', JStr ''John Doe''),
                                           (''email'', JStr ''john@example.com'')],
                                     JObj [(''id'', JNum (Finite 2)), (''name'', JStr ''Jane Smith''),
                                           (''email'', JStr ''jane@example.com'')]])\<rparr>,
               console_error = []\<rparr>
         \<and> last (snd (serve_all (load env_PORT is_main) (earlier @ [(rt, req)]))) = handle rt req"
proof -
  have "last (snd (serve_all (load env_PORT is_main) (earlier @ [(rt, req)]))) = handle rt req"
    by (simp add: serve_all_outcomes load_def handle_def)
  with get_users_answer[OF assms] show ?thesis
    by (simp add: sample_users_def)
qed

theorem get_users_fixed_witness:
  "last (snd (serve_all (load None False)
      [(sample_runtime,
        incoming ''POST'' ''/api/users''
          (Inr (JObj [(''name'', JStr ''Alice''), (''email'', JStr ''a@x.com'')]))),
       (sample_runtime, incoming ''GET'' ''/api/users'' (Inr (JObj [])))])) =
   Some \<lparr>response =
           \<lparr>status = 200,
            body = Json (JArr [JObj [(''id'', JNum (Finite 1)), (''name'', JStr ''John Doe''),
                                     (''email'', JStr ''john@example.com'')],
                               JObj [(''id'', JNum (Finite 2)), (''name'', JStr ''Jane Smith''),
                                     (''email'', JStr ''jane@example.com'')]])\<rparr>,
         console_error = []\<rparr>"
  using get_users_fixed[of "incoming ''GET'' ''/api/users'' (Inr (JObj []))" "JObj []"
      sample_runtime None False
      "[(sample_runtime,
        incoming ''POST'' ''/api/users''
          (Inr (JObj [(''name'', JStr ''Alice''), (''email'', JStr ''a@x.com'')])))]"]
  by (simp add: incoming_def sample_runtime_def no_public_def path_match_refl)

section \<open>GET /health\<close>

text \<open>
  C4 as stated fails: there is a failure condition. A GET to /health whose body the
  JSON parser rejects is answered with status 500, and one whose path names a file
  under \<^verbatim>\<open>public\<close> is answered with that file.
\<close>

theorem health_counterexample:
  "handle sample_runtime
     (incoming ''GET'' ''/health'' (Inl (Error ''SyntaxError: Unexpected end of JSON input''))) =
     Some \<lparr>response =
             \<lparr>status = 500, body = Json (JObj [(''error'', JStr ''Something went wrong!'')])\<rparr>,
           console_error = [''SyntaxError: Unexpected end of JSON input'']\<rparr>
   \<and> handle
       (sample_runtime\<lparr>public :=
          no_public(''/health'' := Served \<lparr>status = 200, body = Bytes ''a file''\<rparr>)\<rparr>)
       (incoming ''GET'' ''/health'' (Inr (JObj []))) =
     Some \<lparr>response = \<lparr>status = 200, body = Bytes ''a file''\<rparr>, console_error = []\<rparr>"
  by (simp add: handle_def app_def express_json_def express_static_def incoming_def
      error_handler_def went_wrong_def sample_runtime_def)

text \<open>
  C4, amended. A GET to /health that the JSON parser lets through and that the static
  directory does not answer gets status 200 and the object of exactly \<open>status\<close>,
  \<open>timestamp\<close> and \<open>uptime\<close>: the string \<open>healthy\<close>, the wall clock's reading as an
  ISO-8601 string, and the number \<^verbatim>\<open>process.uptime()\<close> returned, which is not negative
  when the runtime's reading is not.
\<close>

theorem health_ok:
  assumes "req_method req = ''GET''" and "path_match ''/health'' (req_path req)"
    and "json req = Inr b" and "public rt (req_path req) = Miss"
    and "0 \<le> uptime rt"
  shows "handle rt req =
         Some \<lparr>response =
                 \<lparr>status = 200,
                  body = Json (JObj [(''status'', JStr ''healthy''),
                                     (''timestamp'', JStr (toISOString (date_now rt))),
                                     (''uptime'', JNum (Finite (uptime rt)))])\<rparr>,
               console_error = []\<rparr>
         \<and> 0 \<le> uptime rt"
  using health_answer[OF assms(1-4)] assms(5) by simp

theorem health_ok_witness:
  "handle sample_runtime (incoming ''GET'' ''/health'' (Inr (JObj []))) =
   Some \<lparr>response =
           \<lparr>status = 200,
            body = Json (JObj [(''status'', JStr ''healthy''),
                               (''timestamp'', JStr ''2025-10-30T03:45:00.000Z''),
                               (''uptime'', JNum (Finite 123.456))])\<rparr>,
         console_error = []\<rparr>"
  using health_ok[of "incoming ''GET'' ''/health'' (Inr (JObj []))" "JObj []" sample_runtime]
  by (simp add: incoming_def sample_runtime_def no_public_def path_match_refl iso_sample)

section \<open>The fallbacks\<close>

text \<open>
  C5 as stated fails: a request that matches no route and no file, and whose body
  the JSON parser rejects, is answered with status 500, not 404.
\<close>

theorem not_found_counterexample:
  "handle sample_runtime
     (incoming ''POST'' ''/no-such-route''
        (Inl (Error ''SyntaxError: Unexpected end of JSON input''))) =
   Some \<lparr>response =
           \<lparr>status = 500, body = Json (JObj [(''error'', JStr ''Something went wrong!'')])\<rparr>,
         console_error = [''SyntaxError: Unexpected end of JSON input'']\<rparr>"
  by (simp add: handle_fault incoming_def error_handler_def went_wrong_def)

text \<open>
  C5, amended. A request of any method that the JSON parser lets through, that the
  static directory does not answer (it looks up GET and HEAD only) and that none of
  the three routes matches is answered with status 404 and exactly
  \<open>{error: "Route not found"}\<close>. A route matches by method and path together, a
  HEAD request counting as a GET.
\<close>

theorem unmatched_not_found:
  assumes "json req = Inr b"
    and "req_method req = ''GET'' \<or> req_method req = ''HEAD'' \<Longrightarrow> public rt (req_path req) = Miss"
    and "\<not> (handles_method ''get'' (req_method req) \<and> path_match ''/health'' (req_path req))"
    and "\<not> (handles_method ''get'' (req_method req) \<and> path_match ''/api/users'' (req_path req))"
    and "\<not> (handles_method ''post'' (req_method req) \<and> path_match ''/api/users'' (req_path req))"
  shows "handle rt req =
         Some \<lparr>response =
                 \<lparr>status = 404, body = Json (JObj [(''error'', JStr ''Route not found'')])\<rparr>,
               console_error = []\<rparr>"
proof -
  have static: "express_static rt (req\<lparr>req_body := b\<rparr>) = Next (req\<lparr>req_body := b\<rparr>)"
    using assms(2) by (auto simp add: express_static_def)
  have r1: "(handles_method ''get'' (req_method req) \<and> path_match ''/health'' (req_path req)) = False"
    and r2: "(handles_method ''get'' (req_method req) \<and> path_match ''/api/users'' (req_path req)) = False"
    and r3: "(handles_method ''post'' (req_method req) \<and> path_match ''/api/users'' (req_path req)) = False"
    using assms(3-5) by simp_all
  show ?thesis
    by (simp add: handle_parsed[OF assms(1)] app_def static r1 r2 r3 not_found_def res_json_def
        route_not_found_def)
qed

theorem unmatched_not_found_witness:
  "handle sample_runtime (incoming ''GET'' ''/no-such-route'' (Inr (JObj []))) =
     Some \<lparr>response =
             \<lparr>status = 404, body = Json (JObj [(''error'', JStr ''Route not found'')])\<rparr>,
           console_error = []\<rparr>
   \<and> handle sample_runtime (incoming ''POST'' ''/health'' (Inr (JObj []))) =
     Some \<lparr>response =
             \<lparr>status = 404, body = Json (JObj [(''error'', JStr ''Route not found'')])\<rparr>,
           console_error = []\<rparr>"
  using
    unmatched_not_found[of "incoming ''GET'' ''/no-such-route'' (Inr (JObj []))" "JObj []"
      sample_runtime]
    unmatched_not_found[of "incoming ''POST'' ''/health'' (Inr (JObj []))" "JObj []"
      sample_runtime]
  by (simp add: incoming_def sample_runtime_def no_public_def path_match_def handles_method_def
      lower_literals toLowerCase_def to_lower_def)

text \<open>
  C6. Whatever exception is pending when the router reaches any of the layers up to
  the error handler, the answer is status 500 with exactly
  \<open>{error: "Something went wrong!"}\<close>: the stack trace goes to \<^verbatim>\<open>console.error\<close> and
  nothing of the exception into the response. That is the answer when the JSON parser
  rejects the body, on every method and path; when the static middleware forwards a
  fault; and when the POST handler throws on a body that is \<^verbatim>\<open>undefined\<close> or \<^verbatim>\<open>null\<close>.
\<close>

theorem faults_answered_500:
  "(k \<le> 5 \<longrightarrow>
      dispatch (drop k app) rt req (Some e) =
      Some \<lparr>response =
              \<lparr>status = 500, body = Json (JObj [(''error'', JStr ''Something went wrong!'')])\<rparr>,
            console_error = [stack e]\<rparr>)
   \<and> (json req = Inl e \<longrightarrow>
      handle rt req =
      Some \<lparr>response =
              \<lparr>status = 500, body = Json (JObj [(''error'', JStr ''Something went wrong!'')])\<rparr>,
            console_error = [stack e]\<rparr>)
   \<and> (json req = Inr b \<and> (req_method req = ''GET'' \<or> req_method req = ''HEAD'')
        \<and> public rt (req_path req) = Failed e \<longrightarrow>
      handle rt req =
      Some \<lparr>response =
              \<lparr>status = 500, body = Json (JObj [(''error'', JStr ''Something went wrong!'')])\<rparr>,
            console_error = [stack e]\<rparr>)
   \<and> (req_method req = ''POST'' \<and> path_match ''/api/users'' (req_path req)
        \<and> json req = Inr b \<and> (b = JUndefined \<or> b = JNull) \<longrightarrow>
      handle rt req =
      Some \<lparr>response =
              \<lparr>status = 500, body = Json (JObj [(''error'', JStr ''Something went wrong!'')])\<rparr>,
            console_error = [stack type_error]\<rparr>)"
proof (intro conjI impI)
  assume "k \<le> 5"
  then show "dispatch (drop k app) rt req (Some e) =
      Some \<lparr>response =
              \<lparr>status = 500, body = Json (JObj [(''error'', JStr ''Something went wrong!'')])\<rparr>,
            console_error = [stack e]\<rparr>"
    by (simp add: dispatch_pending error_handler_def went_wrong_def)
next
  assume "json req = Inl e"
  then show "handle rt req =
      Some \<lparr>response =
              \<lparr>status = 500, body = Json (JObj [(''error'', JStr ''Something went wrong!'')])\<rparr>,
            console_error = [stack e]\<rparr>"
    by (simp add: handle_fault error_handler_def went_wrong_def)
next
  assume a: "json req = Inr b \<and> (req_method req = ''GET'' \<or> req_method req = ''HEAD'')
        \<and> public rt (req_path req) = Failed e"
  then have "express_static rt (req\<lparr>req_body := b\<rparr>) = Fail e"
    by (auto simp add: express_static_def)
  with a show "handle rt req =
      Some \<lparr>response =
              \<lparr>status = 500, body = Json (JObj [(''error'', JStr ''Something went wrong!'')])\<rparr>,
            console_error = [stack e]\<rparr>"
    by (simp add: handle_parsed app_def error_handler_def went_wrong_def)
next
  assume a: "req_method req = ''POST'' \<and> path_match ''/api/users'' (req_path req)
        \<and> json req = Inr b \<and> (b = JUndefined \<or> b = JNull)"
  then have "post_users rt (req\<lparr>req_body := b\<rparr>) = Fail type_error"
    by (auto simp add: post_users_def)
  with a show "handle rt req =
      Some \<lparr>response =
              \<lparr>status = 500, body = Json (JObj [(''error'', JStr ''Something went wrong!'')])\<rparr>,
            console_error = [stack type_error]\<rparr>"
    by (simp add: post_users_reached error_handler_def went_wrong_def)
qed

theorem faults_answered_500_witness:
  "dispatch (drop 5 app) sample_runtime (incoming ''GET'' ''/health'' (Inr (JObj [])))
     (Some (Error ''Error: thrown by a handler'')) =
     Some \<lparr>response =
             \<lparr>status = 500, body = Json (JObj [(''error'', JStr ''Something went wrong!'')])\<rparr>,
           console_error = [''Error: thrown by a handler'']\<rparr>
   \<and> handle sample_runtime
       (incoming ''GET'' ''/health'' (Inl (Error ''SyntaxError: Unexpected end of JSON input''))) =
     Some \<lparr>response =
             \<lparr>status = 500, body = Json (JObj [(''error'', JStr ''Something went wrong!'')])\<rparr>,
           console_error = [''SyntaxError: Unexpected end of JSON input'']\<rparr>
   \<and> handle sample_runtime (incoming ''POST'' ''/api/users'' (Inr JUndefined)) =
     Some \<lparr>response =
             \<lparr>status = 500, body = Json (JObj [(''error'', JStr ''Something went wrong!'')])\<rparr>,
           console_error = [''TypeError: Cannot destructure property of req.body'']\<rparr>"
  using
    faults_answered_500[of 5 sample_runtime "incoming ''GET'' ''/health'' (Inr (JObj []))"
      "Error ''Error: thrown by a handler''" "JObj []"]
    faults_answered_500[of 0 sample_runtime
      "incoming ''GET'' ''/health'' (Inl (Error ''SyntaxError: Unexpected end of JSON input''))"
      "Error ''SyntaxError: Unexpected end of JSON input''" "JObj []"]
    faults_answered_500[of 0 sample_runtime "incoming ''POST'' ''/api/users'' (Inr JUndefined)"
      "Error ''x''" JUndefined]
  by (simp add: incoming_def path_match_refl type_error_def)

section \<open>The process across requests\<close>

text \<open>
  The scope is threaded, not ignored: a layer that assigns to a variable of the module
  leaves the store changed for whatever runs after it.
\<close>

lemma dispatch_st_threads_scope:
  "fst (dispatch_st [UseSt (\<lambda>sc rt req. (sc(''hits'' \<mapsto> JNum (Finite 1)), Next req))]
          Map.empty rt req None) ''hits'' = Some (JNum (Finite 1))"
  by simp

text \<open>
  Through the seven layers of the file the scope comes back as it went in, and the
  outcome is the one that does not look at the scope at all.
\<close>

lemma dispatch_st_app: "dispatch_st app_st sc rt req None = (sc, handle rt req)"
  by (simp add: app_st_def app_def handle_def
      express_json_st_def express_json_def express_static_st_def express_static_def
      health_st_def health_def get_users_st_def get_users_def post_users_st_def post_users_def
      error_handler_st_def error_handler_def not_found_st_def not_found_def res_json_def
      split: sum.split static_result.split)

lemma serve_all_st_Cons:
  "serve_all_st sc (x # xs) =
   (fst (serve_all_st (fst (dispatch_st app_st sc (fst x) (snd x) None)) xs),
    snd (dispatch_st app_st sc (fst x) (snd x) None)
    # snd (serve_all_st (fst (dispatch_st app_st sc (fst x) (snd x) None)) xs))"
  by (simp split: prod.splits)

lemma serve_all_st_run:
  "serve_all_st sc xs = (sc, map (\<lambda>x. handle (fst x) (snd x)) xs)"
proof (induction xs arbitrary: sc)
  case Nil
  show ?case by simp
next
  case (Cons x xs)
  show ?case
    by (simp only: serve_all_st_Cons dispatch_st_app Cons.IH fst_conv snd_conv list.map)
qed

text \<open>
  C8. Whatever the module's variables hold, serving any sequence of requests leaves
  them as they were, and the outcome of each request in the sequence is the outcome
  of that request handled alone: no request assigns to anything a later request could
  read, and none reads anything an earlier one left. In particular the scope is
  unchanged by GET /health and GET /api/users, however often they are repeated.
\<close>

theorem requests_independent:
  "fst (serve_all_st sc xs) = sc
   \<and> snd (serve_all_st sc xs) = map (\<lambda>x. handle (fst x) (snd x)) xs
   \<and> (i < length xs \<longrightarrow>
        snd (serve_all_st sc xs) ! i = handle (fst (xs ! i)) (snd (xs ! i)))
   \<and> (i < length xs \<longrightarrow>
        dispatch_st app_st (fst (serve_all_st sc (take i xs))) (fst (xs ! i)) (snd (xs ! i)) None =
        dispatch_st app_st sc (fst (xs ! i)) (snd (xs ! i)) None)"
  by (simp add: serve_all_st_run)

theorem requests_independent_witness:
  "fst (serve_all_st (module_scope None)
      [(sample_runtime, incoming ''GET'' ''/health'' (Inr (JObj []))),
       (sample_runtime,
        incoming ''POST'' ''/api/users''
          (Inr (JObj [(''name'', JStr ''Alice''), (''email'', JStr ''a@x.com'')]))),
       (sample_runtime, incoming ''GET'' ''/health'' (Inl (Error ''SyntaxError''))),
       (sample_runtime, incoming ''GET'' ''/api/users'' (Inr (JObj [])))]) = module_scope None
   \<and> snd (serve_all_st (module_scope None)
      [(sample_runtime, incoming ''GET'' ''/health'' (Inr (JObj []))),
       (sample_runtime,
        incoming ''POST'' ''/api/users''
          (Inr (JObj [(''name'', JStr ''Alice''), (''email'', JStr ''a@x.com'')]))),
       (sample_runtime, incoming ''GET'' ''/health'' (Inl (Error ''SyntaxError''))),
       (sample_runtime, incoming ''GET'' ''/api/users'' (Inr (JObj [])))]) ! 3 =
     handle sample_runtime (incoming ''GET'' ''/api/users'' (Inr (JObj [])))"
  using requests_independent[of "module_scope None"
      "[(sample_runtime, incoming ''GET'' ''/health'' (Inr (JObj []))),
        (sample_runtime,
         incoming ''POST'' ''/api/users''
           (Inr (JObj [(''name'', JStr ''Alice''), (''email'', JStr ''a@x.com'')]))),
        (sample_runtime, incoming ''GET'' ''/health'' (Inl (Error ''SyntaxError''))),
        (sample_runtime, incoming ''GET'' ''/api/users'' (Inr (JObj [])))]" 3]
  by simp

section \<open>Loading the module\<close>

text \<open>
  C9. Loaded by another module, the file calls \<^verbatim>\<open>app.listen\<close> neither on load nor while
  requests are served in process: it only exports the app. Run as the main module it
  listens on the value of PORT, and on 3000 when PORT is unset or empty.
\<close>

theorem listens_only_as_main:
  "listening (load env_PORT False) = None
   \<and> exports (load env_PORT False) = app
   \<and> listening (fst (serve_all (load env_PORT False) xs)) = None
   \<and> listening (load env_PORT True) = Some (port env_PORT)
   \<and> port None = JNum (Finite 3000)
   \<and> port (Some s) = (if s = [] then JNum (Finite 3000) else JStr s)"
  by (simp add: serve_all_process load_def port_def)

theorem listens_only_as_main_witness:
  "listening (fst (serve_all (load (Some ''8080'') False)
      [(sample_runtime, incoming ''GET'' ''/health'' (Inr (JObj [])))])) = None
   \<and> listening (load (Some ''8080'') True) = Some (JStr ''8080'')
   \<and> listening (load None True) = Some (JNum (Finite 3000))"
  using listens_only_as_main[of "Some ''8080''"
      "[(sample_runtime, incoming ''GET'' ''/health'' (Inr (JObj [])))]" "''8080''"]
    listens_only_as_main[of None "[]" "''8080''"]
  by simp

section \<open>What a created user is made of\<close>

text \<open>
  C10. The answer to a successful POST to /api/users holds the three fields \<open>id\<close>,
  \<open>name\<close> and \<open>email\<close> and nothing else; whatever else the request body holds is
  ignored: two such requests with the same \<open>name\<close> and \<open>email\<close>, handled at the same
  millisecond, get the same outcome.
\<close>

theorem post_users_ignores_extras:
  assumes "req_method req1 = ''POST''" and "path_match ''/api/users'' (req_path req1)"
    and "req_method req2 = ''POST''" and "path_match ''/api/users'' (req_path req2)"
    and "json req1 = Inr (JObj kvs1)" and "json req2 = Inr (JObj kvs2)"
    and "map_of kvs1 ''name'' = Some name" and "map_of kvs2 ''name'' = Some name"
    and "map_of kvs1 ''email'' = Some email" and "map_of kvs2 ''email'' = Some email"
    and "truthy name" and "truthy email"
    and "date_now rt1 = date_now rt2"
  shows "handle rt1 req1 = handle rt2 req2
         \<and> (\<exists>i. handle rt1 req1 =
                  Some \<lparr>response =
                          \<lparr>status = 201,
                           body = Json (JObj [(''id'', i), (''name'', name), (''email'', email)])\<rparr>,
                        console_error = []\<rparr>)"
proof -
  have p1: "get_prop (JObj kvs1) ''name'' = Inr name" "get_prop (JObj kvs1) ''email'' = Inr email"
    using assms(7,9) by simp_all
  have p2: "get_prop (JObj kvs2) ''name'' = Inr name" "get_prop (JObj kvs2) ''email'' = Inr email"
    using assms(8,10) by simp_all
  show ?thesis
    using assms(11-13)
    by (simp add: post_users_answer[OF assms(1,2,5) p1] post_users_answer[OF assms(3,4,6) p2]
        newUser_def)
qed

theorem post_users_ignores_extras_witness:
  "handle sample_runtime
     (incoming ''POST'' ''/api/users''
        (Inr (JObj [(''name'', JStr ''Alice''), (''email'', JStr ''a@x.com'')]))) =
   handle (sample_runtime\<lparr>uptime := 7\<rparr>)
     (incoming ''POST'' ''/API/Users/''
        (Inr (JObj [(''id'', JNum (Finite 1)), (''role'', JStr ''admin''),
                    (''email'', JStr ''a@x.com''), (''name'', JStr ''Alice'')])))"
  using post_users_ignores_extras[of
      "incoming ''POST'' ''/api/users''
        (Inr (JObj [(''name'', JStr ''Alice''), (''email'', JStr ''a@x.com'')]))"
      "incoming ''POST'' ''/API/Users/''
        (Inr (JObj [(''id'', JNum (Finite 1)), (''role'', JStr ''admin''),
                    (''email'', JStr ''a@x.com''), (''name'', JStr ''Alice'')]))"
      "[(''name'', JStr ''Alice''), (''email'', JStr ''a@x.com'')]"
      "[(''id'', JNum (Finite 1)), (''role'', JStr ''admin''),
        (''email'', JStr ''a@x.com''), (''name'', JStr ''Alice'')]"
      "JStr ''Alice''" "JStr ''a@x.com''" sample_runtime "sample_runtime\<lparr>uptime := 7\<rparr>"]
  by (simp add: incoming_def path_match_def toLowerCase_def to_lower_def)

end
